theory Spec2Isabelle
  imports Main "HOL-Library.Char_ord" "HOL-Library.List_Lexorder"
begin

section \<open>Python values and exceptions\<close>

text \<open>
  A Python \<open>str\<close> is a \<open>string\<close>: one \<open>char\<close> per code point, for the code points
  below 256. Standard output and the error stream are lists of lines, one per
  \<open>print\<close> call.

  Every exception the program names is a constructor. The text of \<open>str(e)\<close> is
  carried by the exception, since the provider decides it. \<open>ClientError\<close> carries
  \<open>e.response.get("Error")\<close> as an optional pair of optional \<open>Code\<close> and \<open>Message\<close>.
  \<open>KeyboardInterrupt\<close> is the one constructor that is not a subclass of
  \<open>Exception\<close>.
\<close>

datatype exn =
    NoCredentialsError string
  | PartialCredentialsError string
  | EndpointConnectionError string
  | UnknownServiceError string
  | ClientError "(string option \<times> string option) option" string
  | ParamValidationError string
  | KeyboardInterrupt
  | NoRegionError string
  | IndexError
  | KeyError string
  | OtherException string

text \<open>\<open>str(e)\<close>.\<close>

fun exn_str :: "exn \<Rightarrow> string" where
  "exn_str (NoCredentialsError m) = m"
| "exn_str (PartialCredentialsError m) = m"
| "exn_str (EndpointConnectionError m) = m"
| "exn_str (UnknownServiceError m) = m"
| "exn_str (ClientError resp m) = m"
| "exn_str (ParamValidationError m) = m"
| "exn_str KeyboardInterrupt = []"
| "exn_str (NoRegionError m) = m"
| "exn_str IndexError = ''list index out of range''"
| "exn_str (KeyError k) = [CHR 0x27] @ k @ [CHR 0x27]"
| "exn_str (OtherException m) = m"

fun is_ClientError :: "exn \<Rightarrow> bool" where
  "is_ClientError (ClientError resp m) = True"
| "is_ClientError e = False"

text \<open>
  The values a response field can hold where the program does not assume a
  string: \<open>None\<close> (also what \<open>d.get(k)\<close> gives for an absent key), a string, an
  integer, or a \<open>datetime\<close>. The \<open>datetime\<close> carries the six fields that the format
  \<open>%Y-%m-%d %H:%M:%S\<close> reads.
\<close>

record datetime =
  dt_year :: nat
  dt_month :: nat
  dt_day :: nat
  dt_hour :: nat
  dt_minute :: nat
  dt_second :: nat

datatype pyval = PyNone | PyStr string | PyInt int | PyDateTime datetime

text \<open>\<open>d.get(k, default)\<close> on a field that may be absent.\<close>

definition get_or :: "'a option \<Rightarrow> 'a \<Rightarrow> 'a" where
  "get_or v d = (case v of None \<Rightarrow> d | Some x \<Rightarrow> x)"

section \<open>Helpers\<close>

subsection \<open>String operations of the Python library\<close>

text \<open>\<open>sep.join(items)\<close>.\<close>

fun py_join :: "string \<Rightarrow> string list \<Rightarrow> string" where
  "py_join sep [] = []"
| "py_join sep [x] = x"
| "py_join sep (x # y # ys) = x @ sep @ py_join sep (y # ys)"

text \<open>\<open>s.ljust(w)\<close>: pads with spaces on the right, never truncates.\<close>

definition ljust :: "string \<Rightarrow> nat \<Rightarrow> string" where
  "ljust s w = s @ replicate (w - length s) CHR '' ''"

text \<open>
  \<open>s.lower()\<close> and \<open>s.strip()\<close> on code points below 256: the capitals are
  \<open>A\<close> to \<open>Z\<close> and 192 to 222 without the multiplication sign 215, each 32 below
  its small letter; the whitespace characters are 9 to 13, 28 to 32, 133 and 160.
\<close>

definition py_lower_char :: "char \<Rightarrow> char" where
  "py_lower_char c =
     (let n = of_char c :: nat in
      if (65 \<le> n \<and> n \<le> 90) \<or> (192 \<le> n \<and> n \<le> 222 \<and> n \<noteq> 215)
      then char_of (n + 32) else c)"

definition py_lower :: "string \<Rightarrow> string" where
  "py_lower s = map py_lower_char s"

definition py_isspace :: "char \<Rightarrow> bool" where
  "py_isspace c =
     (let n = of_char c :: nat in (9 \<le> n \<and> n \<le> 13) \<or> (28 \<le> n \<and> n \<le> 32) \<or> n = 133 \<or> n = 160)"

definition py_strip :: "string \<Rightarrow> string" where
  "py_strip s = rev (dropWhile py_isspace (rev (dropWhile py_isspace s)))"

text \<open>\<open>loc or default\<close>: \<open>None\<close> and the empty string are both false.\<close>

definition py_or :: "string option \<Rightarrow> string \<Rightarrow> string" where
  "py_or v d = (case v of None \<Rightarrow> d | Some s \<Rightarrow> if s = [] then d else s)"

text \<open>\<open>str(n)\<close> for an integer: decimal digits, with a minus sign when negative.\<close>

definition digit_char :: "nat \<Rightarrow> char" where
  "digit_char n = ''0123456789'' ! n"

fun str_nat :: "nat \<Rightarrow> string" where
  "str_nat n = (if n < 10 then [digit_char n] else str_nat (n div 10) @ [digit_char (n mod 10)])"

declare str_nat.simps [simp del]

definition str_int :: "int \<Rightarrow> string" where
  "str_int i = (if i < 0 then CHR ''-'' # str_nat (nat (- i)) else str_nat (nat i))"

text \<open>
  \<open>dt.strftime("%Y-%m-%d %H:%M:%S")\<close>, as the C library formats it: \<open>%Y\<close> is the
  year in decimal without padding, and each other directive is its field in
  decimal, filled with a zero on the left to two digits.
\<close>

definition zfill :: "nat \<Rightarrow> string \<Rightarrow> string" where
  "zfill w s = replicate (w - length s) CHR ''0'' @ s"

definition strftime :: "datetime \<Rightarrow> string" where
  "strftime d =
     str_nat (dt_year d) @ ''-'' @ zfill 2 (str_nat (dt_month d)) @ ''-''
     @ zfill 2 (str_nat (dt_day d)) @ '' '' @ zfill 2 (str_nat (dt_hour d)) @ '':''
     @ zfill 2 (str_nat (dt_minute d)) @ '':'' @ zfill 2 (str_nat (dt_second d))"

text \<open>
  \<open>str(v)\<close>. For a \<open>datetime\<close> of the six fields alone it is \<open>isoformat\<close> with a
  space as separator, where the year is filled to four digits.
\<close>

definition isoformat :: "datetime \<Rightarrow> string" where
  "isoformat d =
     zfill 4 (str_nat (dt_year d)) @ ''-'' @ zfill 2 (str_nat (dt_month d)) @ ''-''
     @ zfill 2 (str_nat (dt_day d)) @ '' '' @ zfill 2 (str_nat (dt_hour d)) @ '':''
     @ zfill 2 (str_nat (dt_minute d)) @ '':'' @ zfill 2 (str_nat (dt_second d))"

fun py_str :: "pyval \<Rightarrow> string" where
  "py_str PyNone = ''None''"
| "py_str (PyStr s) = s"
| "py_str (PyInt i) = str_int i"
| "py_str (PyDateTime d) = isoformat d"

subsection \<open>\<open>human_ts\<close>\<close>

text \<open>
  Only a \<open>datetime\<close> has \<open>strftime\<close>; on every other value the attribute lookup
  raises, and \<open>human_ts\<close> returns \<open>str(dt)\<close>.
\<close>

fun human_ts :: "pyval \<Rightarrow> string" where
  "human_ts (PyDateTime d) = strftime d"
| "human_ts dt = py_str dt"

subsection \<open>\<open>print_header\<close>\<close>

definition print_header :: "string \<Rightarrow> string list" where
  "print_header title =
     [replicate (length title) CHR ''='', title, replicate (length title) CHR ''='']"

subsection \<open>\<open>print_table\<close>\<close>

text \<open>
  The inner loop \<open>for i, col in enumerate(r): widths[i] = max(widths[i], len(col))\<close>,
  from index \<open>i\<close> on. Reading \<open>widths[i]\<close> past the end raises \<open>IndexError\<close>.
\<close>

fun widths_row :: "nat list \<Rightarrow> nat \<Rightarrow> string list \<Rightarrow> exn + nat list" where
  "widths_row widths i [] = Inr widths"
| "widths_row widths i (col # cols) =
     (if i < length widths
      then widths_row (widths[i := max (widths ! i) (length col)]) (Suc i) cols
      else Inl IndexError)"

text \<open>The outer loop \<open>for r in rows\<close> of the width computation.\<close>

fun widths_rows :: "nat list \<Rightarrow> string list list \<Rightarrow> exn + nat list" where
  "widths_rows widths [] = Inr widths"
| "widths_rows widths (r # rs) =
     (case widths_row widths 0 r of
        Inl e \<Rightarrow> Inl e
      | Inr widths' \<Rightarrow> widths_rows widths' rs)"

definition compute_widths :: "string list list \<Rightarrow> string list \<Rightarrow> exn + nat list" where
  "compute_widths rows headers = widths_rows (map length headers) rows"

text \<open>
  The generator \<open>r[i].ljust(widths[i]) for i in range(len(headers))\<close>, over the
  indices still to come. \<open>r[i]\<close> is read first and raises \<open>IndexError\<close> on a short
  row; \<open>widths[i]\<close> raises it on a short width list.
\<close>

fun row_cells :: "nat list \<Rightarrow> string list \<Rightarrow> nat list \<Rightarrow> exn + string list" where
  "row_cells widths r [] = Inr []"
| "row_cells widths r (i # is) =
     (if i < length r \<and> i < length widths
      then (case row_cells widths r is of
              Inl e \<Rightarrow> Inl e
            | Inr cs \<Rightarrow> Inr (ljust (r ! i) (widths ! i) # cs))
      else Inl IndexError)"

text \<open>
  The loop that prints the data rows. \<open>join\<close> consumes the whole generator before
  \<open>print\<close> is called, so the row that raises prints nothing.
\<close>

fun print_rows :: "nat list \<Rightarrow> nat \<Rightarrow> string list list \<Rightarrow> string list \<times> exn option" where
  "print_rows widths n [] = ([], None)"
| "print_rows widths n (r # rs) =
     (case row_cells widths r [0..<n] of
        Inl e \<Rightarrow> ([], Some e)
      | Inr cs \<Rightarrow>
          (case print_rows widths n rs of
             (out, e) \<Rightarrow> (py_join '' | '' cs # out, e)))"

text \<open>
  \<open>header_line\<close> and \<open>sep_line\<close>. The width list is as long as the header list, so
  \<open>widths[i]\<close> is in range here.
\<close>

definition header_line :: "nat list \<Rightarrow> string list \<Rightarrow> string" where
  "header_line widths headers =
     py_join '' | '' (map (\<lambda>(i, h). ljust h (widths ! i)) (enumerate 0 headers))"

definition sep_line :: "nat list \<Rightarrow> string list \<Rightarrow> string" where
  "sep_line widths headers =
     py_join ''-+-'' (map (\<lambda>i. replicate (widths ! i) CHR ''-'') [0..<length headers])"

text \<open>
  \<open>print_table\<close> returns the lines it printed and the exception it raised, if any.
\<close>

definition print_table :: "string list list \<Rightarrow> string list \<Rightarrow> string list \<times> exn option" where
  "print_table rows headers =
     (if rows = [] then ([''(no resources found)''], None)
      else
        (case compute_widths rows headers of
           Inl e \<Rightarrow> ([], Some e)
         | Inr widths \<Rightarrow>
             (case print_rows widths (length headers) rows of
                (out, e) \<Rightarrow>
                  (header_line widths headers # sep_line widths headers # out, e))))"

text \<open>
  The two statements that end every handler: \<open>print_header(title)\<close>, then
  \<open>print_table(rows, headers)\<close>.
\<close>

definition print_section ::
  "string \<Rightarrow> string list list \<Rightarrow> string list \<Rightarrow> string list \<times> exn option" where
  "print_section title rows headers =
     (case print_table rows headers of
        (out, e) \<Rightarrow> (print_header title @ out, e))"

subsection \<open>\<open>fail\<close>\<close>

text \<open>
  How a run ends: the process exits with a code (\<open>sys.exit\<close>), or an exception
  leaves \<open>main\<close> uncaught. \<open>fail\<close> gives the line it writes to the error stream and
  the exit it raises.
\<close>

datatype outcome = Exit int | Uncaught exn

definition fail :: "string \<Rightarrow> int \<Rightarrow> string \<times> outcome" where
  "fail msg code = (''Error: '' @ msg, Exit code)"

section \<open>The provider\<close>

text \<open>
  The SDK is a parameter of the model. A response is a record with one optional
  field per key the program reads. A paginator is the list of what \<open>paginate()\<close>
  yields, page by page, where an entry \<open>Inl e\<close> is a fetch that raises \<open>e\<close>. A call
  of the provider is a function of its arguments.
\<close>

record tag =
  tag_Key :: "string option"
  tag_Value :: "string option"

record ec2_instance =
  InstanceId :: "string option"
  InstanceType :: "string option"
  State :: "string option option"
  Placement :: "string option option"
  LaunchTime :: pyval
  Tags :: "tag list option"

record reservation =
  Instances :: "ec2_instance list option"

record ec2_page =
  Reservations :: "reservation list option"

record bucket =
  bucket_Name :: string
  CreationDate :: pyval

record s3_client =
  list_buckets :: "exn + bucket list option"
  get_bucket_location :: "string \<Rightarrow> exn + string option"

record table_desc =
  TableStatus :: "string option"
  ItemCount :: "int option"
  TableSizeBytes :: "int option"

record ddb_page =
  TableNames :: "string list option"

record ddb_client =
  list_tables :: "(exn + ddb_page) list"
  describe_table :: "string \<Rightarrow> exn + table_desc option"

record db_instance =
  DBInstanceIdentifier :: "string option"
  Engine :: "string option"
  DBInstanceClass :: "string option"
  DBInstanceStatus :: "string option"
  Endpoint :: "string option option"
  InstanceCreateTime :: pyval

record rds_page =
  DBInstances :: "db_instance list option"

record lambda_function =
  FunctionName :: "string option"
  Runtime :: "string option"
  Version :: "string option"
  LastModified :: "string option"

record lambda_page =
  Functions :: "lambda_function list option"

text \<open>
  \<open>boto3.Session(profile_name, region_name)\<close> and \<open>session.client(service, ...)\<close>
  for the five services; the s3 client is created without a region. For the
  paginated services the client is the paginator's pages.
\<close>

record 's aws =
  Session :: "string option \<Rightarrow> string \<Rightarrow> exn + 's"
  client_ec2 :: "'s \<Rightarrow> string \<Rightarrow> exn + (exn + ec2_page) list"
  client_s3 :: "'s \<Rightarrow> exn + s3_client"
  client_dynamodb :: "'s \<Rightarrow> string \<Rightarrow> exn + ddb_client"
  client_rds :: "'s \<Rightarrow> string \<Rightarrow> exn + (exn + rds_page) list"
  client_lambda :: "'s \<Rightarrow> string \<Rightarrow> exn + (exn + lambda_page) list"

subsection \<open>\<open>get_session\<close>\<close>

text \<open>
  \<open>if profile\<close> is false for \<open>None\<close> and for the empty string. The arguments of
  the one \<open>Session\<close> call are kept, to tell what reaches the provider.
\<close>

definition session_args :: "string option \<Rightarrow> string \<Rightarrow> string option \<times> string" where
  "session_args profile region =
     (if profile \<noteq> None \<and> profile \<noteq> Some [] then (profile, region) else (None, region))"

definition get_session ::
  "'s aws \<Rightarrow> string option \<Rightarrow> string \<Rightarrow> (string list \<times> outcome) + 's" where
  "get_session env profile region =
     (case Session env (fst (session_args profile region)) (snd (session_args profile region)) of
        Inr s \<Rightarrow> Inr s
      | Inl (NoRegionError m) \<Rightarrow>
          (case fail m 1 of (line, oc) \<Rightarrow> Inl ([line], oc))
      | Inl KeyboardInterrupt \<Rightarrow> Inl ([], Uncaught KeyboardInterrupt)
      | Inl e \<Rightarrow>
          (case fail (''Failed to initialize AWS session: '' @ exn_str e) 1 of
             (line, oc) \<Rightarrow> Inl ([line], oc)))"

section \<open>Service handlers\<close>

text \<open>
  A handler returns the lines it printed and the exception it raised, if any.
  It prints only after its loops, so a handler that raises in a loop has printed
  nothing.

  \<open>for page in paginator.paginate()\<close>, for the handlers whose loop body cannot
  raise: \<open>page_rows\<close> gives the rows one page appends.
\<close>

fun for_pages ::
  "('p \<Rightarrow> string list list) \<Rightarrow> (exn + 'p) list \<Rightarrow> string list list \<Rightarrow> exn + string list list" where
  "for_pages page_rows [] rows = Inr rows"
| "for_pages page_rows (Inl e # ps) rows = Inl e"
| "for_pages page_rows (Inr page # ps) rows = for_pages page_rows ps (rows @ page_rows page)"

subsection \<open>\<open>list_ec2\<close>\<close>

text \<open>The loop over the tags, with its \<open>break\<close> at the first key \<open>Name\<close>.\<close>

fun name_tag :: "tag list \<Rightarrow> string" where
  "name_tag [] = []"
| "name_tag (t # ts) =
     (if tag_Key t = Some ''Name'' then get_or (tag_Value t) [] else name_tag ts)"

definition ec2_row :: "ec2_instance \<Rightarrow> string list" where
  "ec2_row inst =
     (let inst_id = get_or (InstanceId inst) [];
          inst_type = get_or (InstanceType inst) [];
          state = get_or (get_or (State inst) None) [];
          az = get_or (get_or (Placement inst) None) [];
          launch = human_ts (LaunchTime inst);
          name = name_tag (get_or (Tags inst) [])
      in [inst_id, state, inst_type, az, launch, name])"

definition ec2_page_rows :: "ec2_page \<Rightarrow> string list list" where
  "ec2_page_rows page =
     concat (map (\<lambda>reservation. map ec2_row (get_or (Instances reservation) []))
                 (get_or (Reservations page) []))"

definition list_ec2 :: "'s aws \<Rightarrow> 's \<Rightarrow> string \<Rightarrow> string list \<times> exn option" where
  "list_ec2 env session region =
     (case client_ec2 env session region of
        Inl e \<Rightarrow> ([], Some e)
      | Inr pages \<Rightarrow>
          (case for_pages ec2_page_rows pages [] of
             Inl e \<Rightarrow> ([], Some e)
           | Inr rows \<Rightarrow>
               print_section (''EC2 Instances in '' @ region) rows
                 [''InstanceId'', ''State'', ''Type'', ''AZ'', ''LaunchTime'', ''Name'']))"

subsection \<open>\<open>list_s3\<close>\<close>

text \<open>
  The loop over the buckets. A \<open>ClientError\<close> of the location query is caught
  and the loop continues; any other exception leaves the handler.
\<close>

fun s3_buckets ::
  "(string \<Rightarrow> exn + string option) \<Rightarrow> string \<Rightarrow> bucket list \<Rightarrow> string list list
   \<Rightarrow> exn + string list list" where
  "s3_buckets location region [] rows = Inr rows"
| "s3_buckets location region (b # bs) rows =
     (let name = bucket_Name b in
      case location name of
        Inl e \<Rightarrow>
          (if is_ClientError e then s3_buckets location region bs rows else Inl e)
      | Inr loc \<Rightarrow>
          (let bucket_region = py_or loc ''us-east-1'' in
           if bucket_region = region
           then s3_buckets location region bs
                  (rows @ [[name, bucket_region, human_ts (CreationDate b)]])
           else s3_buckets location region bs rows))"

definition list_s3 :: "'s aws \<Rightarrow> 's \<Rightarrow> string \<Rightarrow> string list \<times> exn option" where
  "list_s3 env session region =
     (case client_s3 env session of
        Inl e \<Rightarrow> ([], Some e)
      | Inr s3 \<Rightarrow>
          (case list_buckets s3 of
             Inl e \<Rightarrow> ([], Some e)
           | Inr resp \<Rightarrow>
               (case s3_buckets (get_bucket_location s3) region (get_or resp []) [] of
                  Inl e \<Rightarrow> ([], Some e)
                | Inr rows \<Rightarrow>
                    print_section (''S3 Buckets in '' @ region) rows
                      [''BucketName'', ''Region'', ''CreationDate''])))"

subsection \<open>\<open>list_dynamodb\<close>\<close>

text \<open>
  The loop over the table names of one page. \<open>describe_table(...)["Table"]\<close>
  raises \<open>KeyError\<close> on a response without the key; only a \<open>ClientError\<close> is
  caught.
\<close>

fun ddb_tables ::
  "(string \<Rightarrow> exn + table_desc option) \<Rightarrow> string list \<Rightarrow> string list list
   \<Rightarrow> exn + string list list" where
  "ddb_tables describe [] rows = Inr rows"
| "ddb_tables describe (table # ts) rows =
     (case describe table of
        Inl e \<Rightarrow>
          (if is_ClientError e
           then ddb_tables describe ts (rows @ [[table, ''(access denied)'', [], []]])
           else Inl e)
      | Inr None \<Rightarrow> Inl (KeyError ''Table'')
      | Inr (Some desc) \<Rightarrow>
          (let status = get_or (TableStatus desc) [];
               items = (case ItemCount desc of None \<Rightarrow> py_str (PyStr []) | Some n \<Rightarrow> py_str (PyInt n));
               size = (case TableSizeBytes desc of None \<Rightarrow> py_str (PyStr []) | Some n \<Rightarrow> py_str (PyInt n))
           in ddb_tables describe ts (rows @ [[table, status, items, size]])))"

fun ddb_pages ::
  "(string \<Rightarrow> exn + table_desc option) \<Rightarrow> (exn + ddb_page) list \<Rightarrow> string list list
   \<Rightarrow> exn + string list list" where
  "ddb_pages describe [] rows = Inr rows"
| "ddb_pages describe (Inl e # ps) rows = Inl e"
| "ddb_pages describe (Inr page # ps) rows =
     (case ddb_tables describe (get_or (TableNames page) []) rows of
        Inl e \<Rightarrow> Inl e
      | Inr rows' \<Rightarrow> ddb_pages describe ps rows')"

definition list_dynamodb :: "'s aws \<Rightarrow> 's \<Rightarrow> string \<Rightarrow> string list \<times> exn option" where
  "list_dynamodb env session region =
     (case client_dynamodb env session region of
        Inl e \<Rightarrow> ([], Some e)
      | Inr ddb \<Rightarrow>
          (case ddb_pages (describe_table ddb) (list_tables ddb) [] of
             Inl e \<Rightarrow> ([], Some e)
           | Inr rows \<Rightarrow>
               print_section (''DynamoDB Tables in '' @ region) rows
                 [''TableName'', ''Status'', ''ItemCount'', ''SizeBytes'']))"

subsection \<open>\<open>list_rds\<close>\<close>

definition rds_page_rows :: "rds_page \<Rightarrow> string list list" where
  "rds_page_rows page =
     map (\<lambda>db.
            (let ident = get_or (DBInstanceIdentifier db) [];
                 eng = get_or (Engine db) [];
                 cls = get_or (DBInstanceClass db) [];
                 status = get_or (DBInstanceStatus db) [];
                 endpoint = get_or (get_or (Endpoint db) None) [];
                 created = human_ts (InstanceCreateTime db)
             in [ident, eng, cls, status, endpoint, created]))
         (get_or (DBInstances page) [])"

definition list_rds :: "'s aws \<Rightarrow> 's \<Rightarrow> string \<Rightarrow> string list \<times> exn option" where
  "list_rds env session region =
     (case client_rds env session region of
        Inl e \<Rightarrow> ([], Some e)
      | Inr pages \<Rightarrow>
          (case for_pages rds_page_rows pages [] of
             Inl e \<Rightarrow> ([], Some e)
           | Inr rows \<Rightarrow>
               print_section (''RDS DB Instances in '' @ region) rows
                 [''Identifier'', ''Engine'', ''Class'', ''Status'', ''Endpoint'', ''Created'']))"

subsection \<open>\<open>list_lambda\<close>\<close>

definition lambda_page_rows :: "lambda_page \<Rightarrow> string list list" where
  "lambda_page_rows page =
     map (\<lambda>fn.
            (let name = get_or (FunctionName fn) [];
                 runtime = get_or (Runtime fn) [];
                 ver = get_or (Version fn) [];
                 last_mod = get_or (LastModified fn) []
             in [name, runtime, ver, last_mod]))
         (get_or (Functions page) [])"

definition list_lambda :: "'s aws \<Rightarrow> 's \<Rightarrow> string \<Rightarrow> string list \<times> exn option" where
  "list_lambda env session region =
     (case client_lambda env session region of
        Inl e \<Rightarrow> ([], Some e)
      | Inr pages \<Rightarrow>
          (case for_pages lambda_page_rows pages [] of
             Inl e \<Rightarrow> ([], Some e)
           | Inr rows \<Rightarrow>
               print_section (''Lambda Functions in '' @ region) rows
                 [''FunctionName'', ''Runtime'', ''Version'', ''LastModified'']))"

subsection \<open>\<open>SUPPORTED\<close>\<close>

text \<open>
  The dictionary from service key to handler, in the order it is written. The
  handlers are named by a datatype, and \<open>call\<close> applies the one named.
\<close>

datatype handler = List_ec2 | List_s3 | List_dynamodb | List_rds | List_lambda

definition SUPPORTED :: "(string \<times> handler) list" where
  "SUPPORTED =
     [(''ec2'', List_ec2), (''s3'', List_s3), (''dynamodb'', List_dynamodb),
      (''rds'', List_rds), (''lambda'', List_lambda)]"

fun call :: "handler \<Rightarrow> 's aws \<Rightarrow> 's \<Rightarrow> string \<Rightarrow> string list \<times> exn option" where
  "call List_ec2 = list_ec2"
| "call List_s3 = list_s3"
| "call List_dynamodb = list_dynamodb"
| "call List_rds = list_rds"
| "call List_lambda = list_lambda"

section \<open>Main\<close>

text \<open>
  The \<open>except\<close> clauses of \<open>main\<close>, in their order: the message and the exit code
  handed to \<open>fail\<close>.
\<close>

fun translate :: "string \<Rightarrow> string \<Rightarrow> exn \<Rightarrow> string \<times> int" where
  "translate service region (NoCredentialsError m) =
     (''No AWS credentials found. Configure credentials via environment variables or AWS config files.'', 1)"
| "translate service region (PartialCredentialsError m) =
     (''Partial AWS credentials found. Please complete your AWS credential configuration.'', 1)"
| "translate service region (EndpointConnectionError m) =
     (''Could not connect to endpoint for region '' @ [CHR 0x27] @ region @ [CHR 0x27]
        @ ''. Is the region correct? Details: '' @ m, 1)"
| "translate service region (UnknownServiceError m) =
     (''The AWS SDK does not recognize service '' @ [CHR 0x27] @ service @ [CHR 0x27] @ ''.'', 1)"
| "translate service region (ClientError resp m) =
     (let code = get_or (fst (get_or resp (None, None))) ''Unknown'';
          msg = get_or (snd (get_or resp (None, None))) m
      in (''AWS API error ('' @ code @ ''): '' @ msg, 1))"
| "translate service region (ParamValidationError m) = (''Invalid parameter(s): '' @ m, 1)"
| "translate service region KeyboardInterrupt = (''Interrupted by user.'', 130)"
| "translate service region e = (''Unexpected error: '' @ exn_str e, 1)"

text \<open>
  What a run leaves: the lines on standard output and on the error stream, how
  the process ended, and the arguments of every \<open>Session\<close> call made.
\<close>

record run =
  stdout :: "string list"
  stderr :: "string list"
  ending :: outcome
  session_calls :: "(string option \<times> string) list"

definition unsupported_message :: "string \<Rightarrow> string" where
  "unsupported_message service =
     ''Unsupported service '' @ [CHR 0x27] @ service @ [CHR 0x27] @ ''. ''
     @ ''Supported: '' @ py_join '', '' (sort (map fst SUPPORTED))"

text \<open>
  \<open>main\<close> on the parsed arguments \<open>args.service\<close>, \<open>args.region\<close> and
  \<open>args.profile\<close>, followed by \<open>sys.exit\<close> on what it returns.
\<close>

definition main :: "'s aws \<Rightarrow> string \<Rightarrow> string \<Rightarrow> string option \<Rightarrow> run" where
  "main env args_service args_region args_profile =
     (let service = py_strip (py_lower args_service);
          region = py_strip args_region
      in case map_of SUPPORTED service of
           None \<Rightarrow>
             (case fail (unsupported_message service) 1 of
                (line, oc) \<Rightarrow>
                  \<lparr>stdout = [], stderr = [line], ending = oc, session_calls = []\<rparr>)
         | Some h \<Rightarrow>
             (case get_session env args_profile region of
                Inl (lines, oc) \<Rightarrow>
                  \<lparr>stdout = [], stderr = lines, ending = oc,
                   session_calls = [session_args args_profile region]\<rparr>
              | Inr session \<Rightarrow>
                  (case call h env session region of
                     (out, None) \<Rightarrow>
                       \<lparr>stdout = out, stderr = [], ending = Exit 0,
                        session_calls = [session_args args_profile region]\<rparr>
                   | (out, Some e) \<Rightarrow>
                       (case translate service region e of
                          (msg, code) \<Rightarrow>
                            (case fail msg code of
                               (line, oc) \<Rightarrow>
                                 \<lparr>stdout = out, stderr = [line], ending = oc,
                                  session_calls = [session_args args_profile region]\<rparr>)))))"

section \<open>The renderer as the specification words it\<close>

text \<open>
  The width of column \<open>i\<close> is the greatest of the header's length and the
  lengths of the cells of that column; the table is the header row, the
  separator row and one row per data row, each cell paired with the width of
  its column in order.
\<close>

definition spec_widths :: "string list list \<Rightarrow> string list \<Rightarrow> nat list" where
  "spec_widths rows headers =
     map (\<lambda>i. Max (insert (length (headers ! i)) ((\<lambda>r. length (r ! i)) ` set rows)))
       [0..<length headers]"

definition spec_table :: "string list list \<Rightarrow> string list \<Rightarrow> string list" where
  "spec_table rows headers =
     (let ws = spec_widths rows headers in
        py_join '' | '' (map2 ljust headers ws)
        # py_join ''-+-'' (map (\<lambda>w. replicate w CHR ''-'') ws)
        # map (\<lambda>r. py_join '' | '' (map2 ljust r ws)) rows)"

section \<open>The handlers as the specification words them\<close>







text \<open>
  The location of a bucket is resolved when its query returns: to \<open>us-east-1\<close>
  when the response has no location constraint, and to the constraint otherwise.
  The rows of the s3 handler are those of the buckets resolved to the requested
  region. A denied table has the status \<open>(access denied)\<close> and empty count and
  size; a described one has its status, item count and size in bytes.
\<close>

definition no_constraint :: "string option \<Rightarrow> bool" where
  "no_constraint loc \<longleftrightarrow> loc = None \<or> loc = Some []"

definition resolved_location :: "(string \<Rightarrow> exn + string option) \<Rightarrow> bucket \<Rightarrow> string option" where
  "resolved_location location b =
     (case location (bucket_Name b) of
        Inl e \<Rightarrow> None
      | Inr loc \<Rightarrow> Some (if no_constraint loc then ''us-east-1'' else the loc))"

definition spec_s3_rows ::
  "(string \<Rightarrow> exn + string option) \<Rightarrow> string \<Rightarrow> bucket list \<Rightarrow> string list list" where
  "spec_s3_rows location region buckets =
     map (\<lambda>b. [bucket_Name b, region, human_ts (CreationDate b)])
       (filter (\<lambda>b. resolved_location location b = Some region) buckets)"

definition only_client_errors :: "('a \<Rightarrow> exn + 'b) \<Rightarrow> 'a list \<Rightarrow> bool" where
  "only_client_errors query xs \<longleftrightarrow>
     (\<forall>x\<in>set xs. case query x of Inl e \<Rightarrow> is_ClientError e | Inr v \<Rightarrow> True)"

definition spec_ddb_row :: "(string \<Rightarrow> exn + table_desc option) \<Rightarrow> string \<Rightarrow> string list" where
  "spec_ddb_row describe table =
     (case describe table of
        Inr (Some desc) \<Rightarrow>
          [table, get_or (TableStatus desc) [],
           (case ItemCount desc of None \<Rightarrow> [] | Some n \<Rightarrow> str_int n),
           (case TableSizeBytes desc of None \<Rightarrow> [] | Some n \<Rightarrow> str_int n)]
      | _ \<Rightarrow> [table, ''(access denied)'', [], []])"

definition has_Table :: "(string \<Rightarrow> exn + table_desc option) \<Rightarrow> string list \<Rightarrow> bool" where
  "has_Table describe tables \<longleftrightarrow> (\<forall>t\<in>set tables. describe t \<noteq> Inr None)"

definition page_tables :: "ddb_page list \<Rightarrow> string list" where
  "page_tables pages = concat (map (\<lambda>page. get_or (TableNames page) []) pages)"

section \<open>Example inputs\<close>

text \<open>A provider whose every call returns, with nothing to list.\<close>

definition ex_env :: "unit aws" where
  "ex_env = \<lparr>Session = (\<lambda>profile region. Inr ()),
     client_ec2 = (\<lambda>s region. Inr []),
     client_s3 = (\<lambda>s. Inr \<lparr>list_buckets = Inr None, get_bucket_location = (\<lambda>name. Inr None)\<rparr>),
     client_dynamodb = (\<lambda>s region. Inr \<lparr>list_tables = [], describe_table = (\<lambda>t. Inr None)\<rparr>),
     client_rds = (\<lambda>s region. Inr []),
     client_lambda = (\<lambda>s region. Inr [])\<rparr>"



definition ex_denied :: exn where
  "ex_denied = ClientError (Some (Some ''AccessDenied'', Some ''Access Denied''))
     ''An error occurred (AccessDenied)''"

definition ex_buckets :: "bucket list" where
  "ex_buckets =
     [\<lparr>bucket_Name = ''logs'',
       CreationDate = PyDateTime \<lparr>dt_year = 2020, dt_month = 11, dt_day = 2,
                                   dt_hour = 13, dt_minute = 4, dt_second = 59\<rparr>\<rparr>,
      \<lparr>bucket_Name = ''eu-data'', CreationDate = PyNone\<rparr>,
      \<lparr>bucket_Name = ''secret'', CreationDate = PyNone\<rparr>,
      \<lparr>bucket_Name = ''legacy'', CreationDate = PyStr ''n/a''\<rparr>]"

definition ex_s3 :: s3_client where
  "ex_s3 =
     \<lparr>list_buckets = Inr (Some ex_buckets),
      get_bucket_location =
        (\<lambda>name. if name = ''logs'' then Inr None
                else if name = ''eu-data'' then Inr (Some ''eu-west-1'')
                else if name = ''secret'' then Inl ex_denied
                else Inr (Some []))\<rparr>"

definition ex_ddb :: ddb_client where
  "ex_ddb =
     \<lparr>list_tables = [Inr \<lparr>TableNames = Some [''users'', ''audit'']\<rparr>,
                     Inr \<lparr>TableNames = Some [''orders'']\<rparr>],
      describe_table =
        (\<lambda>t. if t = ''audit'' then Inl ex_denied
             else if t = ''users''
             then Inr (Some \<lparr>TableStatus = Some ''ACTIVE'', ItemCount = Some 42,
                               TableSizeBytes = Some 1024\<rparr>)
             else Inr (Some \<lparr>TableStatus = Some ''CREATING'', ItemCount = None,
                               TableSizeBytes = Some 0\<rparr>))\<rparr>"

definition ex_interrupted :: "unit aws" where
  "ex_interrupted = ex_env\<lparr>client_ec2 := (\<lambda>s region. Inl KeyboardInterrupt)\<rparr>"

definition ex_no_credentials :: "unit aws" where
  "ex_no_credentials =
     ex_env\<lparr>client_ec2 := (\<lambda>s region. Inl (NoCredentialsError ''Unable to locate credentials''))\<rparr>"

definition ex_no_region :: "unit aws" where
  "ex_no_region =
     ex_env\<lparr>Session := (\<lambda>profile region. Inl (NoRegionError ''You must specify a region.''))\<rparr>"

definition ex_no_profile :: "unit aws" where
  "ex_no_profile =
     ex_env\<lparr>Session :=
       (\<lambda>profile region. Inl (OtherException ''The config profile (dev) could not be found''))\<rparr>"

section \<open>Properties of the renderer\<close>

subsection \<open>The two loops\<close>

lemma widths_row_ok:
  "i + length cols \<le> length w \<Longrightarrow>
   \<exists>w'. widths_row w i cols = Inr w' \<and> length w' = length w \<and>
     (\<forall>j<length w. w' ! j =
        (if i \<le> j \<and> j < i + length cols then max (w ! j) (length (cols ! (j - i))) else w ! j))"
proof (induction cols arbitrary: w i)
  case Nil
  then show ?case by simp
next
  case (Cons col cols)
  let ?w = "w[i := max (w ! i) (length col)]"
  from Cons.prems have i: "i < length w" and le: "Suc i + length cols \<le> length ?w" by simp_all
  from Cons.IH [OF le] obtain w' where
    w': "widths_row ?w (Suc i) cols = Inr w'" "length w' = length w"
    and nth: "\<forall>j<length w. w' ! j =
        (if Suc i \<le> j \<and> j < Suc i + length cols then max (?w ! j) (length (cols ! (j - Suc i))) else ?w ! j)"
    by auto
  have "\<forall>j<length w. w' ! j =
        (if i \<le> j \<and> j < i + length (col # cols) then max (w ! j) (length ((col # cols) ! (j - i))) else w ! j)"
  proof (intro allI impI)
    fix j assume j: "j < length w"
    show "w' ! j = (if i \<le> j \<and> j < i + length (col # cols) then max (w ! j) (length ((col # cols) ! (j - i))) else w ! j)"
    proof (cases "j = i")
      case True
      with nth j i show ?thesis by simp
    next
      case False
      with nth j i show ?thesis by (auto simp: nth_Cons' Suc_diff_Suc)
    qed
  qed
  with w' i show ?case by simp
qed

lemma widths_row_fail:
  "i \<le> length w \<Longrightarrow> length w < i + length cols \<Longrightarrow> widths_row w i cols = Inl IndexError"
  by (induction cols arbitrary: w i) auto

lemma widths_rows_ok:
  "\<forall>r\<in>set rows. length r \<le> length w \<Longrightarrow>
   \<exists>w'. widths_rows w rows = Inr w' \<and> length w' = length w"
proof (induction rows arbitrary: w)
  case Nil
  then show ?case by simp
next
  case (Cons r rows)
  from Cons.prems have "0 + length r \<le> length w" by simp
  from widths_row_ok [OF this] obtain w1 where
    w1: "widths_row w 0 r = Inr w1" "length w1 = length w" by blast
  with Cons.prems have "\<forall>r\<in>set rows. length r \<le> length w1" by simp
  from Cons.IH [OF this] w1 show ?case by auto
qed

lemma widths_rows_fail:
  "\<exists>r\<in>set rows. length w < length r \<Longrightarrow> widths_rows w rows = Inl IndexError"
proof (induction rows arbitrary: w)
  case Nil
  then show ?case by simp
next
  case (Cons r rows)
  show ?case
  proof (cases "length w < length r")
    case True
    then have "widths_row w 0 r = Inl IndexError" by (simp add: widths_row_fail)
    then show ?thesis by simp
  next
    case False
    then have "0 + length r \<le> length w" by simp
    from widths_row_ok [OF this] obtain w1 where
      w1: "widths_row w 0 r = Inr w1" "length w1 = length w" by blast
    from False Cons.prems have "\<exists>r\<in>set rows. length w1 < length r" using w1 by auto
    from Cons.IH [OF this] w1 show ?thesis by simp
  qed
qed

lemma widths_rows_max:
  "\<forall>r\<in>set rows. length r = length w \<Longrightarrow>
   \<exists>w'. widths_rows w rows = Inr w' \<and> length w' = length w \<and>
     (\<forall>j<length w. w' ! j = Max (insert (w ! j) ((\<lambda>r. length (r ! j)) ` set rows)))"
proof (induction rows arbitrary: w)
  case Nil
  then show ?case by simp
next
  case (Cons r rows)
  from Cons.prems have "0 + length r \<le> length w" by simp
  from widths_row_ok [OF this] obtain w1 where
    w1: "widths_row w 0 r = Inr w1" "length w1 = length w"
    and nth1: "\<forall>j<length w. w1 ! j =
        (if 0 \<le> j \<and> j < 0 + length r then max (w ! j) (length (r ! (j - 0))) else w ! j)"
    by blast
  from Cons.prems w1 have "\<forall>r\<in>set rows. length r = length w1" by simp
  from Cons.IH [OF this] obtain w' where
    w': "widths_rows w1 rows = Inr w'" "length w' = length w1"
    and nth: "\<forall>j<length w1. w' ! j = Max (insert (w1 ! j) ((\<lambda>r. length (r ! j)) ` set rows))"
    by blast
  have "\<forall>j<length w. w' ! j = Max (insert (w ! j) ((\<lambda>r. length (r ! j)) ` set (r # rows)))"
  proof (intro allI impI)
    fix j assume j: "j < length w"
    let ?S = "(\<lambda>r. length (r ! j)) ` set rows"
    from j Cons.prems nth1 have "w1 ! j = max (w ! j) (length (r ! j))" by simp
    with nth j w1 have "w' ! j = Max (insert (max (w ! j) (length (r ! j))) ?S)" by simp
    also have "\<dots> = Max (insert (w ! j) (insert (length (r ! j)) ?S))"
      by (cases "?S = {}") (simp_all add: max.assoc)
    finally show "w' ! j = Max (insert (w ! j) ((\<lambda>r. length (r ! j)) ` set (r # rows)))" by simp
  qed
  with w1 w' show ?case by simp
qed

lemma row_cells_ok:
  "\<forall>i\<in>set is. i < length r \<and> i < length w \<Longrightarrow>
   row_cells w r is = Inr (map (\<lambda>i. ljust (r ! i) (w ! i)) is)"
  by (induction "is") simp_all

lemma row_cells_fail:
  "\<exists>i\<in>set is. \<not> (i < length r \<and> i < length w) \<Longrightarrow> row_cells w r is = Inl IndexError"
  by (induction "is") (auto split: sum.splits)

lemma row_cells_Inl: "row_cells w r is = Inl e \<Longrightarrow> e = IndexError"
  by (induction "is" arbitrary: e) (auto split: sum.splits if_splits)

lemma map_nth_zip:
  "length r = n \<Longrightarrow> length w = n \<Longrightarrow>
   map (\<lambda>i. f (r ! i) (w ! i)) [0..<n] = map2 f r w"
  by (rule nth_equalityI) simp_all

lemma map_enumerate_zip:
  "length hs = length w \<Longrightarrow>
   map (\<lambda>(i, h). f h (w ! i)) (enumerate 0 hs) = map2 f hs w"
  by (rule nth_equalityI) (simp_all add: nth_enumerate_eq)

lemma print_rows_ok:
  "\<forall>r\<in>set rows. n \<le> length r \<Longrightarrow> n \<le> length w \<Longrightarrow>
   print_rows w n rows =
     (map (\<lambda>r. py_join '' | '' (map (\<lambda>i. ljust (r ! i) (w ! i)) [0..<n])) rows, None)"
  by (induction rows) (simp_all add: row_cells_ok)

lemma print_rows_fail:
  "\<exists>r\<in>set rows. length r < n \<Longrightarrow> snd (print_rows w n rows) = Some IndexError"
proof (induction rows)
  case Nil
  then show ?case by simp
next
  case (Cons r rows)
  show ?case
  proof (cases "row_cells w r [0..<n]")
    case (Inl e)
    then show ?thesis by (simp add: row_cells_Inl)
  next
    case (Inr cs)
    have "\<not> length r < n"
    proof
      assume "length r < n"
      then have "\<exists>i\<in>set [0..<n]. \<not> (i < length r \<and> i < length w)" by auto
      from row_cells_fail [OF this] Inr show False by simp
    qed
    with Cons.prems have "\<exists>r\<in>set rows. length r < n" by simp
    from Cons.IH [OF this] Inr show ?thesis by (auto split: prod.splits)
  qed
qed


lemma compute_widths_spec:
  assumes "\<forall>r\<in>set rows. length r = length headers"
  shows "compute_widths rows headers = Inr (spec_widths rows headers)"
proof -
  from assms have "\<forall>r\<in>set rows. length r = length (map length headers)" by simp
  from widths_rows_max [OF this] obtain w' where
    w': "widths_rows (map length headers) rows = Inr w'" "length w' = length headers"
    and nth: "\<forall>j<length headers. w' ! j =
        Max (insert (map length headers ! j) ((\<lambda>r. length (r ! j)) ` set rows))"
    by auto
  have "w' = spec_widths rows headers"
    using w' nth by (intro nth_equalityI) (simp_all add: spec_widths_def)
  with w' show ?thesis by (simp add: compute_widths_def)
qed

subsection \<open>The layout of a table\<close>

text \<open>
  C5. For every non-empty row list whose rows have as many cells as there are
  headers, the width computed for a column is the greatest of its header's
  length and the lengths of every row's cell in that column, and the renderer
  prints the header cells left-justified to these widths and joined by \<open>" | "\<close>,
  then runs of dashes of these widths joined by \<open>"-+-"\<close>, then every data row in
  order, its cells left-justified to the same widths in header order and joined
  by \<open>" | "\<close>; it raises nothing.
\<close>

theorem print_table_layout:
  assumes "rows \<noteq> []" and "\<forall>r\<in>set rows. length r = length headers"
  shows "compute_widths rows headers = Inr (spec_widths rows headers)
       \<and> print_table rows headers = (spec_table rows headers, None)"
proof -
  let ?ws = "spec_widths rows headers"
  have len: "length ?ws = length headers" by (simp add: spec_widths_def)
  have cw: "compute_widths rows headers = Inr ?ws"
    using assms(2) by (rule compute_widths_spec)
  have pr: "print_rows ?ws (length headers) rows =
      (map (\<lambda>r. py_join '' | '' (map (\<lambda>i. ljust (r ! i) (?ws ! i)) [0..<length headers])) rows, None)"
    using assms(2) len by (intro print_rows_ok) simp_all
  have rows_eq: "map (\<lambda>r. py_join '' | '' (map (\<lambda>i. ljust (r ! i) (?ws ! i)) [0..<length headers])) rows
      = map (\<lambda>r. py_join '' | '' (map2 ljust r ?ws)) rows"
    using assms(2) len by (intro map_cong refl arg_cong [where f = "py_join '' | ''"] map_nth_zip) simp_all
  have hl: "header_line ?ws headers = py_join '' | '' (map2 ljust headers ?ws)"
    using len by (simp add: header_line_def map_enumerate_zip)
  have sl: "sep_line ?ws headers = py_join ''-+-'' (map (\<lambda>w. replicate w CHR ''-'') ?ws)"
  proof -
    have "map (\<lambda>i. replicate (?ws ! i) CHR ''-'') [0..<length headers]
        = map (\<lambda>w. replicate w CHR ''-'') ?ws"
      using len by (intro nth_equalityI) simp_all
    then show ?thesis by (simp add: sep_line_def)
  qed
  from assms(1) cw pr rows_eq hl sl
  have "print_table rows headers = (spec_table rows headers, None)"
    by (simp add: print_table_def spec_table_def Let_def)
  with cw show ?thesis by simp
qed

theorem print_table_layout_witness:
  "[[''i-1'', ''running''], [''i-22222'', ''off'']] \<noteq> []
   \<and> list_all (\<lambda>r. length r = length [''Id'', ''State'']) [[''i-1'', ''running''], [''i-22222'', ''off'']]
   \<and> compute_widths [[''i-1'', ''running''], [''i-22222'', ''off'']] [''Id'', ''State''] = Inr [7, 7]
   \<and> print_table [[''i-1'', ''running''], [''i-22222'', ''off'']] [''Id'', ''State'']
       = ([''Id      | State  '',
           ''--------+--------'',
           ''i-1     | running'',
           ''i-22222 | off    ''], None)"
  using print_table_layout [of "[[''i-1'', ''running''], [''i-22222'', ''off'']]" "[''Id'', ''State'']"]
  by (simp add: spec_table_def spec_widths_def ljust_def)

subsection \<open>No rows\<close>

text \<open>
  C6. For every title and header list, an empty row list renders as the boxed
  title (a line of \<open>=\<close> as long as the title, the title, the same line again)
  followed by the single line \<open>(no resources found)\<close>, and nothing else: no header
  row, no separator, no table, and no exception.
\<close>

theorem print_table_empty:
  "print_section title [] headers =
     ([replicate (length title) CHR ''='', title, replicate (length title) CHR ''='',
       ''(no resources found)''], None)
   \<and> print_table [] headers = ([''(no resources found)''], None)
   \<and> print_header title =
       [replicate (length title) CHR ''='', title, replicate (length title) CHR ''='']"
  by (simp add: print_section_def print_table_def print_header_def)

subsection \<open>When the renderer raises\<close>

text \<open>
  C10. \<open>print_table\<close> raises nothing exactly when every row has as many cells as
  there are headers. On a non-empty list of such rows it prints the header row,
  the separator and one line per row made of exactly one cell per header. A row
  longer than the headers makes the width computation raise \<open>IndexError\<close>, before
  anything is printed. A row shorter than the headers makes the loop that prints
  the rows raise \<open>IndexError\<close>, whatever the widths; \<open>print_table\<close> reaches that loop
  when no row is longer than the headers, and then raises after the header row
  and the separator.
\<close>

theorem print_table_total_iff:
  "(rows \<noteq> [] \<and> (\<forall>r\<in>set rows. length r = length headers) \<longrightarrow>
      (\<exists>widths. compute_widths rows headers = Inr widths \<and>
         print_table rows headers =
           (header_line widths headers # sep_line widths headers #
              map (\<lambda>r. py_join '' | '' (map (\<lambda>i. ljust (r ! i) (widths ! i)) [0..<length headers])) rows,
            None)))
   \<and> ((\<exists>r\<in>set rows. length headers < length r) \<longrightarrow>
        compute_widths rows headers = Inl IndexError
        \<and> print_table rows headers = ([], Some IndexError))
   \<and> ((\<exists>r\<in>set rows. length r < length headers) \<longrightarrow>
        (\<forall>widths. snd (print_rows widths (length headers) rows) = Some IndexError))
   \<and> ((\<exists>r\<in>set rows. length r < length headers) \<and> (\<forall>r\<in>set rows. length r \<le> length headers) \<longrightarrow>
        (\<exists>widths out. compute_widths rows headers = Inr widths \<and>
           print_table rows headers =
             (header_line widths headers # sep_line widths headers # out, Some IndexError)))
   \<and> (snd (print_table rows headers) = None \<longleftrightarrow> (\<forall>r\<in>set rows. length r = length headers))"
proof -
  have ok: "\<exists>widths. compute_widths rows headers = Inr widths \<and>
         print_table rows headers =
           (header_line widths headers # sep_line widths headers #
              map (\<lambda>r. py_join '' | '' (map (\<lambda>i. ljust (r ! i) (widths ! i)) [0..<length headers])) rows,
            None)"
    if ne: "rows \<noteq> []" and eq: "\<forall>r\<in>set rows. length r = length headers"
  proof -
    from eq have "\<forall>r\<in>set rows. length r \<le> length (map length headers)" by simp
    from widths_rows_ok [OF this] obtain w where
      w: "compute_widths rows headers = Inr w" "length w = length headers"
      by (auto simp: compute_widths_def)
    from eq w have "print_rows w (length headers) rows =
      (map (\<lambda>r. py_join '' | '' (map (\<lambda>i. ljust (r ! i) (w ! i)) [0..<length headers])) rows, None)"
      by (intro print_rows_ok) simp_all
    with ne w show ?thesis by (simp add: print_table_def)
  qed
  have long: "compute_widths rows headers = Inl IndexError
        \<and> print_table rows headers = ([], Some IndexError)"
    if ex: "\<exists>r\<in>set rows. length headers < length r"
  proof -
    from ex have "\<exists>r\<in>set rows. length (map length headers) < length r" by simp
    from widths_rows_fail [OF this] have cw: "compute_widths rows headers = Inl IndexError"
      by (simp add: compute_widths_def)
    from ex have "rows \<noteq> []" by auto
    with cw show ?thesis by (simp add: print_table_def)
  qed
  have short: "\<exists>widths out. compute_widths rows headers = Inr widths \<and>
           print_table rows headers =
             (header_line widths headers # sep_line widths headers # out, Some IndexError)"
    if ex: "\<exists>r\<in>set rows. length r < length headers"
      and le: "\<forall>r\<in>set rows. length r \<le> length headers"
  proof -
    from le have "\<forall>r\<in>set rows. length r \<le> length (map length headers)" by simp
    from widths_rows_ok [OF this] obtain w where
      w: "compute_widths rows headers = Inr w"
      by (auto simp: compute_widths_def)
    from print_rows_fail [OF ex] have "snd (print_rows w (length headers) rows) = Some IndexError" .
    then obtain out where "print_rows w (length headers) rows = (out, Some IndexError)"
      by (cases "print_rows w (length headers) rows") simp
    moreover from ex have "rows \<noteq> []" by auto
    ultimately show ?thesis using w by (simp add: print_table_def)
  qed
  have iff: "snd (print_table rows headers) = None \<longleftrightarrow> (\<forall>r\<in>set rows. length r = length headers)"
  proof (cases "rows = []")
    case True
    then show ?thesis by (simp add: print_table_def)
  next
    case ne: False
    show ?thesis
    proof (cases "\<forall>r\<in>set rows. length r = length headers")
      case True
      with ok [OF ne] show ?thesis by auto
    next
      case False
      then consider "\<exists>r\<in>set rows. length headers < length r"
        | "\<exists>r\<in>set rows. length r < length headers" "\<forall>r\<in>set rows. length r \<le> length headers"
        by (metis linorder_neqE_nat not_le)
      then have "snd (print_table rows headers) = Some IndexError"
      proof cases
        case 1
        with long show ?thesis by simp
      next
        case 2
        with short show ?thesis by auto
      qed
      with False show ?thesis by simp
    qed
  qed
  from ok long short iff print_rows_fail show ?thesis by blast
qed

theorem print_table_total_iff_witness:
  "[[''a'', ''bb''], [''ccc'', ''d'']] \<noteq> []
   \<and> list_all (\<lambda>r. length r = length [''H1'', ''H2'']) [[''a'', ''bb''], [''ccc'', ''d'']]
   \<and> print_table [[''a'', ''bb''], [''ccc'', ''d'']] [''H1'', ''H2'']
       = ([''H1  | H2'', ''----+---'', ''a   | bb'', ''ccc | d ''], None)
   \<and> (\<exists>r\<in>set [[''a'', ''bb''], [''ccc'', ''d'', ''e'']]. length [''H1'', ''H2''] < length r)
   \<and> compute_widths [[''a'', ''bb''], [''ccc'', ''d'', ''e'']] [''H1'', ''H2''] = Inl IndexError
   \<and> print_table [[''a'', ''bb''], [''ccc'', ''d'', ''e'']] [''H1'', ''H2''] = ([], Some IndexError)
   \<and> (\<exists>r\<in>set [[''a'', ''bb''], [''ccc'']]. length r < length [''H1'', ''H2''])
   \<and> list_all (\<lambda>r. length r \<le> length [''H1'', ''H2'']) [[''a'', ''bb''], [''ccc'']]
   \<and> print_rows [3, 2] (length [''H1'', ''H2'']) [[''a'', ''bb''], [''ccc'']]
       = ([''a   | bb''], Some IndexError)
   \<and> print_table [[''a'', ''bb''], [''ccc'']] [''H1'', ''H2'']
       = ([''H1  | H2'', ''----+---'', ''a   | bb''], Some IndexError)"
  using print_table_total_iff [of "[[''a'', ''bb''], [''ccc'', ''d'']]" "[''H1'', ''H2'']"]
    print_table_total_iff [of "[[''a'', ''bb''], [''ccc'', ''d'', ''e'']]" "[''H1'', ''H2'']"]
    print_table_total_iff [of "[[''a'', ''bb''], [''ccc'']]" "[''H1'', ''H2'']"]
  by (simp add: print_table_def compute_widths_def header_line_def sep_line_def ljust_def enumerate_eq_zip numeral_2_eq_2)

section \<open>Properties of the ec2 handler\<close>
















section \<open>Properties of the s3 and dynamodb handlers\<close>

lemma py_or_resolved:
  "py_or loc ''us-east-1'' = (if no_constraint loc then ''us-east-1'' else the loc)"
  by (cases loc) (simp_all add: py_or_def no_constraint_def)

lemma s3_buckets_rows:
  "only_client_errors location (map bucket_Name buckets) \<Longrightarrow>
   s3_buckets location region buckets rows = Inr (rows @ spec_s3_rows location region buckets)"
proof (induction buckets arbitrary: rows)
  case Nil
  then show ?case by (simp add: spec_s3_rows_def)
next
  case (Cons b bs)
  from Cons.prems have rest: "only_client_errors location (map bucket_Name bs)"
    by (simp add: only_client_errors_def)
  note IH = Cons.IH [OF rest]
  show ?case
  proof (cases "location (bucket_Name b)")
    case (Inl e)
    with Cons.prems have "is_ClientError e" by (simp add: only_client_errors_def)
    with Inl IH show ?thesis by (simp add: spec_s3_rows_def resolved_location_def)
  next
    case (Inr loc)
    with IH show ?thesis
      by (simp add: spec_s3_rows_def resolved_location_def py_or_resolved Let_def)
  qed
qed

lemma print_table_ok:
  assumes "\<forall>r\<in>set rows. length r = length headers"
  shows "snd (print_table rows headers) = None"
proof (cases "rows = []")
  case True
  then show ?thesis by (simp add: print_table_def)
next
  case False
  from assms have "\<forall>r\<in>set rows. length r \<le> length (map length headers)" by simp
  from widths_rows_ok [OF this] obtain w where
    w: "compute_widths rows headers = Inr w" "length w = length headers"
    by (auto simp: compute_widths_def)
  from assms w have "snd (print_rows w (length headers) rows) = None"
    by (subst print_rows_ok) simp_all
  with False w show ?thesis by (auto simp: print_table_def split: prod.splits)
qed

lemma print_section_ok:
  "\<forall>r\<in>set rows. length r = length headers \<Longrightarrow> snd (print_section title rows headers) = None"
  using print_table_ok [of rows headers] by (auto simp: print_section_def split: prod.splits)

lemma ddb_tables_rows:
  "only_client_errors describe tables \<Longrightarrow> has_Table describe tables \<Longrightarrow>
   ddb_tables describe tables rows = Inr (rows @ map (spec_ddb_row describe) tables)"
proof (induction tables arbitrary: rows)
  case Nil
  then show ?case by simp
next
  case (Cons t ts)
  from Cons.prems have rest: "only_client_errors describe ts" "has_Table describe ts"
    by (simp_all add: only_client_errors_def has_Table_def)
  note IH = Cons.IH [OF rest]
  show ?case
  proof (cases "describe t")
    case (Inl e)
    with Cons.prems have "is_ClientError e" by (simp add: only_client_errors_def)
    with Inl IH show ?thesis by (simp add: spec_ddb_row_def)
  next
    case (Inr r)
    with Cons.prems obtain desc where "r = Some desc" by (auto simp: has_Table_def)
    with Inr IH show ?thesis by (simp add: spec_ddb_row_def Let_def split: option.splits)
  qed
qed

lemma ddb_pages_rows:
  "only_client_errors describe (page_tables pages) \<Longrightarrow> has_Table describe (page_tables pages) \<Longrightarrow>
   ddb_pages describe (map Inr pages) rows
     = Inr (rows @ map (spec_ddb_row describe) (page_tables pages))"
proof (induction pages arbitrary: rows)
  case Nil
  then show ?case by (simp add: page_tables_def)
next
  case (Cons p ps)
  from Cons.prems have here: "only_client_errors describe (get_or (TableNames p) [])"
      "has_Table describe (get_or (TableNames p) [])"
    and rest: "only_client_errors describe (page_tables ps)" "has_Table describe (page_tables ps)"
    by (auto simp: only_client_errors_def has_Table_def page_tables_def)
  from ddb_tables_rows [OF here] Cons.IH [OF rest] show ?case
    by (simp add: page_tables_def)
qed

lemma spec_s3_rows_length: "\<forall>r\<in>set (spec_s3_rows location region buckets). length r = 3"
  by (simp add: spec_s3_rows_def)

text \<open>
  C1. When the bucket listing returns and no location query raises anything
  but a client error, the rows of the s3 handler are, in order, those of the
  buckets whose resolved location equals the requested region, where a bucket
  without location constraint resolves to \<open>us-east-1\<close> and a bucket whose query
  raises a client error resolves to nothing: it has no row, the loop goes on
  with the remaining buckets, and the handler raises nothing, so that no error
  is reported for it.
\<close>

theorem list_s3_region_filter:
  assumes "client_s3 env session = Inr s3"
    and "list_buckets s3 = Inr resp"
    and "only_client_errors (get_bucket_location s3) (map bucket_Name (get_or resp []))"
  shows "s3_buckets (get_bucket_location s3) region (get_or resp []) []
           = Inr (spec_s3_rows (get_bucket_location s3) region (get_or resp []))
       \<and> list_s3 env session region
           = print_section (''S3 Buckets in '' @ region)
               (spec_s3_rows (get_bucket_location s3) region (get_or resp []))
               [''BucketName'', ''Region'', ''CreationDate'']
       \<and> snd (list_s3 env session region) = None"
proof -
  let ?rows = "spec_s3_rows (get_bucket_location s3) region (get_or resp [])"
  have loop: "s3_buckets (get_bucket_location s3) region (get_or resp []) [] = Inr ?rows"
    using s3_buckets_rows [OF assms(3), of region "[]"] by simp
  with assms(1,2) have run: "list_s3 env session region
      = print_section (''S3 Buckets in '' @ region) ?rows [''BucketName'', ''Region'', ''CreationDate'']"
    by (simp add: list_s3_def)
  have "snd (print_section (''S3 Buckets in '' @ region) ?rows
      [''BucketName'', ''Region'', ''CreationDate'']) = None"
    using spec_s3_rows_length [of "get_bucket_location s3" region "get_or resp []"]
    by (intro print_section_ok) simp
  with loop run show ?thesis by simp
qed

text \<open>
  C2. When every page of table names is fetched and no describe call raises
  anything but a client error, the rows of the dynamodb handler are, in order,
  one per table name of every page: the name with status \<open>(access denied)\<close> and
  empty item count and size when the describe call raises a client error, and
  the name with the status, the item count and the size in bytes of the
  description otherwise. The handler raises nothing.
\<close>

theorem list_dynamodb_access_denied:
  assumes "client_dynamodb env session region = Inr ddb"
    and "list_tables ddb = map Inr pages"
    and "only_client_errors (describe_table ddb) (page_tables pages)"
    and "has_Table (describe_table ddb) (page_tables pages)"
  shows "ddb_pages (describe_table ddb) (list_tables ddb) []
           = Inr (map (spec_ddb_row (describe_table ddb)) (page_tables pages))
       \<and> list_dynamodb env session region
           = print_section (''DynamoDB Tables in '' @ region)
               (map (spec_ddb_row (describe_table ddb)) (page_tables pages))
               [''TableName'', ''Status'', ''ItemCount'', ''SizeBytes'']
       \<and> snd (list_dynamodb env session region) = None"
proof -
  let ?rows = "map (spec_ddb_row (describe_table ddb)) (page_tables pages)"
  have loop: "ddb_pages (describe_table ddb) (list_tables ddb) [] = Inr ?rows"
    using ddb_pages_rows [OF assms(3,4), of "[]"] assms(2) by simp
  with assms(1) have run: "list_dynamodb env session region
      = print_section (''DynamoDB Tables in '' @ region) ?rows
          [''TableName'', ''Status'', ''ItemCount'', ''SizeBytes'']"
    by (simp add: list_dynamodb_def)
  have "\<forall>r\<in>set ?rows. length r = 4"
    by (auto simp: spec_ddb_row_def split: sum.splits option.splits)
  then have "snd (print_section (''DynamoDB Tables in '' @ region) ?rows
      [''TableName'', ''Status'', ''ItemCount'', ''SizeBytes'']) = None"
    by (intro print_section_ok) simp
  with loop run show ?thesis by simp
qed

section \<open>Properties of \<open>main\<close>\<close>

subsection \<open>The branches of \<open>main\<close>\<close>

lemma sorted_keys: "sort (map fst SUPPORTED) = [''dynamodb'', ''ec2'', ''lambda'', ''rds'', ''s3'']"
  by code_simp

lemma supported_None:
  "map_of SUPPORTED s = None \<longleftrightarrow> s \<notin> {''ec2'', ''s3'', ''dynamodb'', ''rds'', ''lambda''}"
  by (simp add: SUPPORTED_def)

lemma unsupported_message_eq:
  "unsupported_message s =
     ''Unsupported service '' @ [CHR 0x27] @ s @ [CHR 0x27]
     @ ''. Supported: dynamodb, ec2, lambda, rds, s3''"
  by (simp add: unsupported_message_def sorted_keys)

lemma main_unsupported:
  "map_of SUPPORTED (py_strip (py_lower a)) = None \<Longrightarrow>
   main env a r p =
     \<lparr>stdout = [], stderr = [''Error: '' @ unsupported_message (py_strip (py_lower a))],
      ending = Exit 1, session_calls = []\<rparr>"
  by (simp add: main_def fail_def Let_def)

lemma main_supported_calls:
  "map_of SUPPORTED (py_strip (py_lower a)) = Some h \<Longrightarrow>
   session_calls (main env a r p) = [session_args p (py_strip r)]"
  by (simp add: main_def Let_def split: sum.splits prod.splits option.splits)

lemma main_returns:
  "map_of SUPPORTED (py_strip (py_lower a)) = Some h \<Longrightarrow>
   get_session env p (py_strip r) = Inr session \<Longrightarrow>
   call h env session (py_strip r) = (out, None) \<Longrightarrow>
   main env a r p =
     \<lparr>stdout = out, stderr = [], ending = Exit 0, session_calls = [session_args p (py_strip r)]\<rparr>"
  by (simp add: main_def Let_def)

lemma main_raises:
  "map_of SUPPORTED (py_strip (py_lower a)) = Some h \<Longrightarrow>
   get_session env p (py_strip r) = Inr session \<Longrightarrow>
   call h env session (py_strip r) = (out, Some e) \<Longrightarrow>
   main env a r p =
     \<lparr>stdout = out,
      stderr = [''Error: '' @ fst (translate (py_strip (py_lower a)) (py_strip r) e)],
      ending = Exit (snd (translate (py_strip (py_lower a)) (py_strip r) e)),
      session_calls = [session_args p (py_strip r)]\<rparr>"
  by (simp add: main_def Let_def fail_def split: prod.splits)

lemma translate_code:
  "snd (translate s r e) = (if e = KeyboardInterrupt then 130 else 1)"
  by (cases e) (simp_all add: Let_def)

lemma main_session_fails:
  "map_of SUPPORTED (py_strip (py_lower a)) = Some h \<Longrightarrow>
   get_session env p (py_strip r) = Inl (lines, oc) \<Longrightarrow>
   main env a r p =
     \<lparr>stdout = [], stderr = lines, ending = oc, session_calls = [session_args p (py_strip r)]\<rparr>"
  by (simp add: main_def Let_def)

lemma get_session_cases:
  "get_session env p r =
     (case Session env (fst (session_args p r)) (snd (session_args p r)) of
        Inr s \<Rightarrow> Inr s
      | Inl e \<Rightarrow>
          (if e = KeyboardInterrupt then Inl ([], Uncaught KeyboardInterrupt)
           else Inl ([''Error: '' @ (case e of NoRegionError m \<Rightarrow> m
                       | _ \<Rightarrow> ''Failed to initialize AWS session: '' @ exn_str e)], Exit 1)))"
  by (simp add: get_session_def fail_def split: sum.splits exn.splits)

lemma dropWhile_rev_stripped:
  "dropWhile P (rev (dropWhile P (rev (dropWhile P s)))) = rev (dropWhile P (rev (dropWhile P s)))"
proof (cases "dropWhile P (rev (dropWhile P s)) = []")
  case True
  then show ?thesis by (simp only: rev.simps dropWhile.simps)
next
  case False
  let ?t = "dropWhile P s"
  have ne: "?t \<noteq> []"
  proof
    assume "?t = []"
    then have "dropWhile P (rev ?t) = []" by (simp only: rev.simps dropWhile.simps)
    with False show False by contradiction
  qed
  then have nP: "\<not> P (hd ?t)" by (rule hd_dropWhile)
  obtain us where us: "rev ?t = us @ dropWhile P (rev ?t)"
    by (metis takeWhile_dropWhile_id)
  then have "?t = rev (dropWhile P (rev ?t)) @ rev us"
    by (metis rev_append rev_rev_ident)
  with False have "hd (rev (dropWhile P (rev ?t))) = hd ?t"
    by (metis hd_append2 rev_is_Nil_conv)
  with nP False show ?thesis
    by (simp add: dropWhile_eq_self_iff)
qed

lemma py_strip_idem: "py_strip (py_strip s) = py_strip s"
  by (simp add: py_strip_def dropWhile_rev_stripped)

lemma py_strip_spaces:
  assumes "\<forall>c\<in>set s. py_isspace c"
  shows "py_strip s = []"
proof -
  from assms have "dropWhile py_isspace s = []" by simp
  then show ?thesis by (simp only: py_strip_def rev.simps dropWhile.simps)
qed

subsection \<open>Dispatch, exit codes and normalisation\<close>

lemma lower_EC2: "py_strip (py_lower ''EC2 '') = ''ec2''"
  by code_simp

lemma lower_ec2: "py_strip (py_lower ''ec2'') = ''ec2''"
  by code_simp

text \<open>
  C3. When the lowercased, trimmed service argument is none of \<open>ec2\<close>, \<open>s3\<close>,
  \<open>dynamodb\<close>, \<open>rds\<close>, \<open>lambda\<close>, the run ends with exit code 1 and one line on
  the error stream that names the service and lists the five keys in sorted
  order, and no \<open>Session\<close> call was made. When it is one of them, the dictionary
  gives a handler, and standard output is what that handler prints; each key
  gives the handler of its own service.
\<close>

theorem main_dispatch:
  "(py_strip (py_lower a) \<notin> {''ec2'', ''s3'', ''dynamodb'', ''rds'', ''lambda''} \<longrightarrow>
      main env a r p =
        \<lparr>stdout = [],
         stderr = [''Error: Unsupported service '' @ [CHR 0x27] @ py_strip (py_lower a) @ [CHR 0x27]
                   @ ''. Supported: dynamodb, ec2, lambda, rds, s3''],
         ending = Exit 1, session_calls = []\<rparr>)
   \<and> (py_strip (py_lower a) \<in> {''ec2'', ''s3'', ''dynamodb'', ''rds'', ''lambda''} \<longrightarrow>
        (\<exists>h. map_of SUPPORTED (py_strip (py_lower a)) = Some h
           \<and> (\<forall>session. get_session env p (py_strip r) = Inr session \<longrightarrow>
                 stdout (main env a r p) = fst (call h env session (py_strip r)))))
   \<and> map_of SUPPORTED ''ec2'' = Some List_ec2 \<and> call List_ec2 env = list_ec2 env
   \<and> map_of SUPPORTED ''s3'' = Some List_s3 \<and> call List_s3 env = list_s3 env
   \<and> map_of SUPPORTED ''dynamodb'' = Some List_dynamodb \<and> call List_dynamodb env = list_dynamodb env
   \<and> map_of SUPPORTED ''rds'' = Some List_rds \<and> call List_rds env = list_rds env
   \<and> map_of SUPPORTED ''lambda'' = Some List_lambda \<and> call List_lambda env = list_lambda env"
proof -
  let ?s = "py_strip (py_lower a)"
  have no: "?s \<notin> {''ec2'', ''s3'', ''dynamodb'', ''rds'', ''lambda''} \<longrightarrow>
      main env a r p =
        \<lparr>stdout = [],
         stderr = [''Error: Unsupported service '' @ [CHR 0x27] @ ?s @ [CHR 0x27]
                   @ ''. Supported: dynamodb, ec2, lambda, rds, s3''],
         ending = Exit 1, session_calls = []\<rparr>"
  proof
    assume "?s \<notin> {''ec2'', ''s3'', ''dynamodb'', ''rds'', ''lambda''}"
    with supported_None [of ?s] have "map_of SUPPORTED ?s = None" by blast
    from main_unsupported [OF this, of env r p] show "main env a r p =
        \<lparr>stdout = [],
         stderr = [''Error: Unsupported service '' @ [CHR 0x27] @ ?s @ [CHR 0x27]
                   @ ''. Supported: dynamodb, ec2, lambda, rds, s3''],
         ending = Exit 1, session_calls = []\<rparr>"
      by (simp add: unsupported_message_eq)
  qed
  have yes: "?s \<in> {''ec2'', ''s3'', ''dynamodb'', ''rds'', ''lambda''} \<longrightarrow>
        (\<exists>h. map_of SUPPORTED ?s = Some h
           \<and> (\<forall>session. get_session env p (py_strip r) = Inr session \<longrightarrow>
                 stdout (main env a r p) = fst (call h env session (py_strip r))))"
  proof
    assume "?s \<in> {''ec2'', ''s3'', ''dynamodb'', ''rds'', ''lambda''}"
    with supported_None [of ?s] have "map_of SUPPORTED ?s \<noteq> None" by blast
    then obtain h where h: "map_of SUPPORTED ?s = Some h" by blast
    have "stdout (main env a r p) = fst (call h env session (py_strip r))"
      if "get_session env p (py_strip r) = Inr session" for session
      using h that by (simp add: main_def Let_def split: prod.splits option.splits)
    with h show "\<exists>h. map_of SUPPORTED ?s = Some h
           \<and> (\<forall>session. get_session env p (py_strip r) = Inr session \<longrightarrow>
                 stdout (main env a r p) = fst (call h env session (py_strip r)))"
      by blast
  qed
  have keys: "map_of SUPPORTED ''ec2'' = Some List_ec2" "map_of SUPPORTED ''s3'' = Some List_s3"
    "map_of SUPPORTED ''dynamodb'' = Some List_dynamodb" "map_of SUPPORTED ''rds'' = Some List_rds"
    "map_of SUPPORTED ''lambda'' = Some List_lambda"
    by (simp_all add: SUPPORTED_def)
  from no yes keys show ?thesis by simp
qed

text \<open>
  C4. Once the service is supported and the session created: a handler that
  raises \<open>KeyboardInterrupt\<close> ends the run with exit code 130; a handler that
  raises any other exception ends it with exit code 1 and one line on the error
  stream that begins with \<open>Error: \<close>; a handler that returns ends it with exit
  code 0 and an empty error stream. An unsupported service, and a \<open>Session\<close>
  call that raises anything but \<open>KeyboardInterrupt\<close>, end the run with exit
  code 1. For every run, exit code 1 comes with one
  line on the error stream that begins with \<open>Error: \<close>, and the run ends with
  exit code 0, 1 or 130, or by a \<open>KeyboardInterrupt\<close> that \<open>get_session\<close> does
  not catch.
\<close>

theorem main_exit_codes:
  "(map_of SUPPORTED (py_strip (py_lower a)) = Some h
      \<and> get_session env p (py_strip r) = Inr session \<longrightarrow>
        (call h env session (py_strip r) = (out, Some KeyboardInterrupt) \<longrightarrow>
           ending (main env a r p) = Exit 130
           \<and> stderr (main env a r p) = [''Error: Interrupted by user.''])
      \<and> (call h env session (py_strip r) = (out, Some e) \<and> e \<noteq> KeyboardInterrupt \<longrightarrow>
           ending (main env a r p) = Exit 1
           \<and> (\<exists>m. stderr (main env a r p) = [''Error: '' @ m]))
      \<and> (call h env session (py_strip r) = (out, None) \<longrightarrow>
           ending (main env a r p) = Exit 0 \<and> stderr (main env a r p) = []
           \<and> stdout (main env a r p) = out))
   \<and> (map_of SUPPORTED (py_strip (py_lower a)) = None \<longrightarrow> ending (main env a r p) = Exit 1)
   \<and> (map_of SUPPORTED (py_strip (py_lower a)) = Some h
        \<and> Session env (fst (session_args p [])) (py_strip r) = Inl e \<and> e \<noteq> KeyboardInterrupt \<longrightarrow>
          ending (main env a r p) = Exit 1)
   \<and> (ending (main env a r p) = Exit 1 \<longrightarrow> (\<exists>m. stderr (main env a r p) = [''Error: '' @ m]))
   \<and> ending (main env a r p) \<in> {Exit 0, Exit 1, Exit 130, Uncaught KeyboardInterrupt}"
proof -
  let ?s = "py_strip (py_lower a)"
  have unsup: "map_of SUPPORTED ?s = None \<longrightarrow> ending (main env a r p) = Exit 1"
    using main_unsupported [of a env r p] by simp
  have sess: "ending (main env a r p) = Exit 1"
    if h: "map_of SUPPORTED ?s = Some h"
      and e: "Session env (fst (session_args p [])) (py_strip r) = Inl e" "e \<noteq> KeyboardInterrupt"
  proof -
    have "session_args p (py_strip r) = (fst (session_args p []), py_strip r)"
      by (simp add: session_args_def)
    with e obtain lines where "get_session env p (py_strip r) = Inl (lines, Exit 1)"
      by (simp add: get_session_cases)
    from main_session_fails [OF h this] show ?thesis by simp
  qed
  have handler: "(call h env session (py_strip r) = (out, Some KeyboardInterrupt) \<longrightarrow>
           ending (main env a r p) = Exit 130
           \<and> stderr (main env a r p) = [''Error: Interrupted by user.''])
      \<and> (call h env session (py_strip r) = (out, Some e) \<and> e \<noteq> KeyboardInterrupt \<longrightarrow>
           ending (main env a r p) = Exit 1
           \<and> (\<exists>m. stderr (main env a r p) = [''Error: '' @ m]))
      \<and> (call h env session (py_strip r) = (out, None) \<longrightarrow>
           ending (main env a r p) = Exit 0 \<and> stderr (main env a r p) = []
           \<and> stdout (main env a r p) = out)"
    if h: "map_of SUPPORTED ?s = Some h" and s: "get_session env p (py_strip r) = Inr session"
    using main_raises [OF h s, of out KeyboardInterrupt] main_raises [OF h s, of out e]
      main_returns [OF h s, of out]
    by (auto simp: translate_code)
  have all: "(ending (main env a r p) = Exit 1 \<longrightarrow> (\<exists>m. stderr (main env a r p) = [''Error: '' @ m]))
      \<and> ending (main env a r p) \<in> {Exit 0, Exit 1, Exit 130, Uncaught KeyboardInterrupt}"
  proof (cases "map_of SUPPORTED ?s")
    case None
    from main_unsupported [OF None, of env r p] show ?thesis by simp
  next
    case (Some h')
    show ?thesis
    proof (cases "get_session env p (py_strip r)")
      case (Inl f)
      obtain lines oc where f: "f = (lines, oc)" by (cases f)
      from Inl f have "(oc = Exit 1 \<and> (\<exists>m. lines = [''Error: '' @ m]))
          \<or> (oc = Uncaught KeyboardInterrupt)"
        by (auto simp: get_session_cases split: sum.splits if_splits)
      with main_session_fails [OF Some Inl [unfolded f]] show ?thesis by auto
    next
      case (Inr session')
      obtain out' res where c: "call h' env session' (py_strip r) = (out', res)"
        by (cases "call h' env session' (py_strip r)")
      show ?thesis
      proof (cases res)
        case None
        with main_returns [OF Some Inr] c show ?thesis by simp
      next
        case (Some e')
        with main_raises [OF \<open>map_of SUPPORTED ?s = Some h'\<close> Inr] c show ?thesis
          by (simp add: translate_code)
      qed
    qed
  qed
  from handler unsup sess all show ?thesis by blast
qed

text \<open>
  C9. For every provider, region argument and profile, the run on the service
  argument \<open>EC2\<close> followed by a space equals the run on \<open>ec2\<close> and the trimmed
  region: the same lines on both streams, the same exit, the same \<open>Session\<close>
  call.
\<close>

theorem main_normalises_arguments:
  "main env ''EC2 '' r p = main env ''ec2'' (py_strip r) p"
  by (simp add: main_def lower_EC2 lower_ec2 py_strip_idem)

subsection \<open>The region argument\<close>

text \<open>
  C8, as the program has it. For a supported service, the region argument is
  trimmed and handed to the one \<open>Session\<close> call as it is, also when it is empty:
  a region argument of whitespace alone reaches the provider as the empty
  string. When that call raises \<open>NoRegionError\<close>, the run ends with exit code 1 and the provider's message
  after \<open>Error: \<close> on the error stream, and no handler runs. When it raises any
  other exception but \<open>KeyboardInterrupt\<close>, the run ends with exit code 1 and
  the message \<open>Failed to initialize AWS session: \<close> with the exception's text,
  and no handler runs. When it returns a session, the handler runs on that
  session and the trimmed region.
\<close>

theorem main_region_passed_through:
  "map_of SUPPORTED (py_strip (py_lower a)) = Some h \<longrightarrow>
     session_calls (main env a r p) = [(fst (session_args p []), py_strip r)]
     \<and> ((\<forall>c\<in>set r. py_isspace c) \<longrightarrow>
          session_calls (main env a r p) = [(fst (session_args p []), [])])
     \<and> (\<forall>m. Session env (fst (session_args p [])) (py_strip r) = Inl (NoRegionError m) \<longrightarrow>
            main env a r p =
              \<lparr>stdout = [], stderr = [''Error: '' @ m], ending = Exit 1,
               session_calls = [(fst (session_args p []), py_strip r)]\<rparr>)
     \<and> (\<forall>e. Session env (fst (session_args p [])) (py_strip r) = Inl e
              \<and> e \<noteq> KeyboardInterrupt \<and> (\<forall>m. e \<noteq> NoRegionError m) \<longrightarrow>
            main env a r p =
              \<lparr>stdout = [],
               stderr = [''Error: Failed to initialize AWS session: '' @ exn_str e],
               ending = Exit 1,
               session_calls = [(fst (session_args p []), py_strip r)]\<rparr>)
     \<and> (\<forall>session. Session env (fst (session_args p [])) (py_strip r) = Inr session \<longrightarrow>
            stdout (main env a r p) = fst (call h env session (py_strip r)))"
proof
  assume h: "map_of SUPPORTED (py_strip (py_lower a)) = Some h"
  let ?r = "py_strip r"
  have args: "session_args p ?r = (fst (session_args p []), ?r)"
    by (simp add: session_args_def)
  have calls: "session_calls (main env a r p) = [(fst (session_args p []), ?r)]"
    using main_supported_calls [OF h, of env r p] args by simp
  have blank: "(\<forall>c\<in>set r. py_isspace c) \<longrightarrow>
      session_calls (main env a r p) = [(fst (session_args p []), [])]"
    using calls by (auto simp: py_strip_spaces)
  have noreg: "main env a r p =
      \<lparr>stdout = [], stderr = [''Error: '' @ m], ending = Exit 1,
       session_calls = [(fst (session_args p []), ?r)]\<rparr>"
    if "Session env (fst (session_args p [])) ?r = Inl (NoRegionError m)" for m
  proof -
    from that args have "get_session env p ?r = Inl ([''Error: '' @ m], Exit 1)"
      by (simp add: get_session_cases)
    from main_session_fails [OF h this] args show ?thesis by simp
  qed
  have other: "main env a r p =
      \<lparr>stdout = [], stderr = [''Error: Failed to initialize AWS session: '' @ exn_str e],
       ending = Exit 1, session_calls = [(fst (session_args p []), ?r)]\<rparr>"
    if "Session env (fst (session_args p [])) ?r = Inl e" "e \<noteq> KeyboardInterrupt"
      "\<forall>m. e \<noteq> NoRegionError m" for e
  proof -
    from that args have "get_session env p ?r =
        Inl ([''Error: Failed to initialize AWS session: '' @ exn_str e], Exit 1)"
      by (cases e) (simp_all add: get_session_cases)
    from main_session_fails [OF h this] args show ?thesis by simp
  qed
  have ok: "stdout (main env a r p) = fst (call h env session ?r)"
    if "Session env (fst (session_args p [])) ?r = Inr session" for session
  proof -
    from that args have "get_session env p ?r = Inr session"
      by (simp add: get_session_cases)
    with h show ?thesis
      by (simp add: main_def Let_def split: prod.splits option.splits)
  qed
  from calls blank noreg other ok
  show "session_calls (main env a r p) = [(fst (session_args p []), py_strip r)]
     \<and> ((\<forall>c\<in>set r. py_isspace c) \<longrightarrow>
          session_calls (main env a r p) = [(fst (session_args p []), [])])
     \<and> (\<forall>m. Session env (fst (session_args p [])) (py_strip r) = Inl (NoRegionError m) \<longrightarrow>
            main env a r p =
              \<lparr>stdout = [], stderr = [''Error: '' @ m], ending = Exit 1,
               session_calls = [(fst (session_args p []), py_strip r)]\<rparr>)
     \<and> (\<forall>e. Session env (fst (session_args p [])) (py_strip r) = Inl e
              \<and> e \<noteq> KeyboardInterrupt \<and> (\<forall>m. e \<noteq> NoRegionError m) \<longrightarrow>
            main env a r p =
              \<lparr>stdout = [],
               stderr = [''Error: Failed to initialize AWS session: '' @ exn_str e],
               ending = Exit 1,
               session_calls = [(fst (session_args p []), py_strip r)]\<rparr>)
     \<and> (\<forall>session. Session env (fst (session_args p [])) (py_strip r) = Inr session \<longrightarrow>
            stdout (main env a r p) = fst (call h env session (py_strip r)))"
    by blast
qed

text \<open>
  A region argument of three spaces is not rejected: the \<open>Session\<close> call receives
  the empty string, the handler runs on it, and the run ends with exit code 0.
\<close>

theorem main_empty_region_counterexample:
  "session_calls (main ex_env ''ec2'' ''   '' None) = [(None, [])]
   \<and> ending (main ex_env ''ec2'' ''   '' None) = Exit 0
   \<and> stderr (main ex_env ''ec2'' ''   '' None) = []
   \<and> stdout (main ex_env ''ec2'' ''   '' None)
       = [''================='', ''EC2 Instances in '', ''================='',
          ''(no resources found)'']"
  by code_simp

section \<open>The theorems on example runs\<close>

theorem list_s3_region_filter_witness:
  "client_s3 (ex_env\<lparr>client_s3 := (\<lambda>s. Inr ex_s3)\<rparr>) () = Inr ex_s3
   \<and> list_buckets ex_s3 = Inr (Some ex_buckets)
   \<and> only_client_errors (get_bucket_location ex_s3) (map bucket_Name (get_or (Some ex_buckets) []))
   \<and> get_bucket_location ex_s3 ''secret'' = Inl ex_denied
   \<and> list_s3 (ex_env\<lparr>client_s3 := (\<lambda>s. Inr ex_s3)\<rparr>) () ''us-east-1''
       = ([''======================='', ''S3 Buckets in us-east-1'', ''======================='',
           ''BucketName | Region    | CreationDate       '',
           ''-----------+-----------+--------------------'',
           ''logs       | us-east-1 | 2020-11-02 13:04:59'',
           ''legacy     | us-east-1 | n/a                ''], None)"
proof -
  let ?env = "ex_env\<lparr>client_s3 := (\<lambda>s. Inr ex_s3)\<rparr>"
  have h1: "client_s3 ?env () = Inr ex_s3" by simp
  have h2: "list_buckets ex_s3 = Inr (Some ex_buckets)" by (simp add: ex_s3_def)
  have h3: "only_client_errors (get_bucket_location ex_s3)
      (map bucket_Name (get_or (Some ex_buckets) []))"
    by (simp add: only_client_errors_def get_or_def ex_buckets_def ex_s3_def ex_denied_def)
  have h4: "get_bucket_location ex_s3 ''secret'' = Inl ex_denied" by (simp add: ex_s3_def)
  have out: "print_section (''S3 Buckets in '' @ ''us-east-1'')
      (spec_s3_rows (get_bucket_location ex_s3) ''us-east-1'' (get_or (Some ex_buckets) []))
      [''BucketName'', ''Region'', ''CreationDate'']
       = ([''======================='', ''S3 Buckets in us-east-1'', ''======================='',
           ''BucketName | Region    | CreationDate       '',
           ''-----------+-----------+--------------------'',
           ''logs       | us-east-1 | 2020-11-02 13:04:59'',
           ''legacy     | us-east-1 | n/a                ''], None)"
    by code_simp
  from list_s3_region_filter [OF h1 h2 h3, of "''us-east-1''"] out h1 h2 h3 h4
  show ?thesis by (simp only: simp_thms)
qed

theorem list_dynamodb_access_denied_witness:
  "client_dynamodb (ex_env\<lparr>client_dynamodb := (\<lambda>s region. Inr ex_ddb)\<rparr>) () ''us-east-1'' = Inr ex_ddb
   \<and> list_tables ex_ddb
       = map Inr [\<lparr>TableNames = Some [''users'', ''audit'']\<rparr>, \<lparr>TableNames = Some [''orders'']\<rparr>]
   \<and> only_client_errors (describe_table ex_ddb)
        (page_tables [\<lparr>TableNames = Some [''users'', ''audit'']\<rparr>, \<lparr>TableNames = Some [''orders'']\<rparr>])
   \<and> has_Table (describe_table ex_ddb)
        (page_tables [\<lparr>TableNames = Some [''users'', ''audit'']\<rparr>, \<lparr>TableNames = Some [''orders'']\<rparr>])
   \<and> describe_table ex_ddb ''audit'' = Inl ex_denied
   \<and> list_dynamodb (ex_env\<lparr>client_dynamodb := (\<lambda>s region. Inr ex_ddb)\<rparr>) () ''us-east-1''
       = ([''============================'', ''DynamoDB Tables in us-east-1'',
           ''============================'',
           ''TableName | Status          | ItemCount | SizeBytes'',
           ''----------+-----------------+-----------+----------'',
           ''users     | ACTIVE          | 42        | 1024     '',
           ''audit     | (access denied) |           |          '',
           ''orders    | CREATING        |           | 0        ''], None)"
proof -
  let ?env = "ex_env\<lparr>client_dynamodb := (\<lambda>s region. Inr ex_ddb)\<rparr>"
  let ?pages = "[\<lparr>TableNames = Some [''users'', ''audit'']\<rparr>, \<lparr>TableNames = Some [''orders'']\<rparr>]"
  have h1: "client_dynamodb ?env () ''us-east-1'' = Inr ex_ddb" by simp
  have h2: "list_tables ex_ddb = map Inr ?pages" by (simp add: ex_ddb_def)
  have h3: "only_client_errors (describe_table ex_ddb) (page_tables ?pages)"
    by (simp add: only_client_errors_def page_tables_def get_or_def ex_ddb_def ex_denied_def)
  have h4: "has_Table (describe_table ex_ddb) (page_tables ?pages)"
    by (simp add: has_Table_def page_tables_def get_or_def ex_ddb_def ex_denied_def)
  have h5: "describe_table ex_ddb ''audit'' = Inl ex_denied" by (simp add: ex_ddb_def)
  have out: "print_section (''DynamoDB Tables in '' @ ''us-east-1'')
      (map (spec_ddb_row (describe_table ex_ddb)) (page_tables ?pages))
      [''TableName'', ''Status'', ''ItemCount'', ''SizeBytes'']
       = ([''============================'', ''DynamoDB Tables in us-east-1'',
           ''============================'',
           ''TableName | Status          | ItemCount | SizeBytes'',
           ''----------+-----------------+-----------+----------'',
           ''users     | ACTIVE          | 42        | 1024     '',
           ''audit     | (access denied) |           |          '',
           ''orders    | CREATING        |           | 0        ''], None)"
    by code_simp
  from list_dynamodb_access_denied [OF h1 h2 h3 h4] out h1 h2 h3 h4 h5
  show ?thesis by (simp only: simp_thms)
qed

theorem main_dispatch_witness:
  "py_strip (py_lower ''Glacier '') \<notin> {''ec2'', ''s3'', ''dynamodb'', ''rds'', ''lambda''}
   \<and> main ex_env ''Glacier '' ''us-east-1'' None
       = \<lparr>stdout = [],
          stderr = [''Error: Unsupported service '' @ [CHR 0x27] @ ''glacier'' @ [CHR 0x27]
                    @ ''. Supported: dynamodb, ec2, lambda, rds, s3''],
          ending = Exit 1, session_calls = []\<rparr>
   \<and> py_strip (py_lower '' S3'') \<in> {''ec2'', ''s3'', ''dynamodb'', ''rds'', ''lambda''}
   \<and> get_session ex_env None (py_strip '' us-east-1 '') = Inr ()
   \<and> stdout (main ex_env '' S3'' '' us-east-1 '' None) = fst (list_s3 ex_env () ''us-east-1'')"
proof -
  have g: "py_strip (py_lower ''Glacier '') = ''glacier''" by code_simp
  have s: "py_strip (py_lower '' S3'') = ''s3''" by code_simp
  have r: "py_strip '' us-east-1 '' = ''us-east-1''" by code_simp
  have k: "get_session ex_env None ''us-east-1'' = Inr ()"
    by (simp add: get_session_def session_args_def ex_env_def)
  from main_dispatch [of "''Glacier ''" ex_env "''us-east-1''" None]
    main_dispatch [of "'' S3''" ex_env "'' us-east-1 ''" None] g s r k
  show ?thesis by (auto simp: SUPPORTED_def)
qed

theorem main_exit_codes_witness:
  "map_of SUPPORTED (py_strip (py_lower ''ec2'')) = Some List_ec2
   \<and> get_session ex_interrupted None (py_strip ''us-east-1'') = Inr ()
   \<and> call List_ec2 ex_interrupted () (py_strip ''us-east-1'') = ([], Some KeyboardInterrupt)
   \<and> ending (main ex_interrupted ''ec2'' ''us-east-1'' None) = Exit 130
   \<and> stderr (main ex_interrupted ''ec2'' ''us-east-1'' None) = [''Error: Interrupted by user.'']
   \<and> call List_ec2 ex_no_credentials () (py_strip ''us-east-1'')
       = ([], Some (NoCredentialsError ''Unable to locate credentials''))
   \<and> ending (main ex_no_credentials ''ec2'' ''us-east-1'' None) = Exit 1
   \<and> stderr (main ex_no_credentials ''ec2'' ''us-east-1'' None)
       = [''Error: No AWS credentials found. Configure credentials via environment variables or AWS config files.'']
   \<and> call List_ec2 ex_env () (py_strip ''us-east-1'')
       = ([''=========================='', ''EC2 Instances in us-east-1'',
           ''=========================='', ''(no resources found)''], None)
   \<and> ending (main ex_env ''ec2'' ''us-east-1'' None) = Exit 0
   \<and> stderr (main ex_env ''ec2'' ''us-east-1'' None) = []"
proof -
  have s: "py_strip (py_lower ''ec2'') = ''ec2''" by code_simp
  have r: "py_strip ''us-east-1'' = ''us-east-1''" by code_simp
  have h: "map_of SUPPORTED ''ec2'' = Some List_ec2" by (simp add: SUPPORTED_def)
  have k1: "get_session ex_interrupted None ''us-east-1'' = Inr ()"
    and k2: "get_session ex_no_credentials None ''us-east-1'' = Inr ()"
    and k3: "get_session ex_env None ''us-east-1'' = Inr ()"
    by (simp_all add: get_session_def session_args_def ex_env_def ex_interrupted_def
        ex_no_credentials_def)
  have c1: "call List_ec2 ex_interrupted () ''us-east-1'' = ([], Some KeyboardInterrupt)"
    by (simp add: list_ec2_def ex_interrupted_def)
  have c2: "call List_ec2 ex_no_credentials () ''us-east-1''
      = ([], Some (NoCredentialsError ''Unable to locate credentials''))"
    by (simp add: list_ec2_def ex_no_credentials_def)
  have c3: "call List_ec2 ex_env () ''us-east-1''
       = ([''=========================='', ''EC2 Instances in us-east-1'',
           ''=========================='', ''(no resources found)''], None)"
    by (simp add: list_ec2_def ex_env_def print_section_def print_table_def print_header_def)
  have m: "stderr (main ex_no_credentials ''ec2'' ''us-east-1'' None)
       = [''Error: No AWS credentials found. Configure credentials via environment variables or AWS config files.'']"
    by code_simp
  from main_exit_codes [of "''ec2''" List_ec2 ex_interrupted None "''us-east-1''" "()" "[]" KeyboardInterrupt]
    main_exit_codes [of "''ec2''" List_ec2 ex_no_credentials None "''us-east-1''" "()" "[]"
      "NoCredentialsError ''Unable to locate credentials''"]
    main_exit_codes [of "''ec2''" List_ec2 ex_env None "''us-east-1''" "()"
      "[''=========================='', ''EC2 Instances in us-east-1'',
        ''=========================='', ''(no resources found)'']" KeyboardInterrupt]
    s r h k1 k2 k3 c1 c2 c3 m
  show ?thesis by simp
qed

theorem main_normalises_arguments_witness:
  "main ex_env ''EC2 '' '' us-east-1 '' None = main ex_env ''ec2'' ''us-east-1'' None
   \<and> main ex_env ''ec2'' ''us-east-1'' None
       = \<lparr>stdout = [''=========================='', ''EC2 Instances in us-east-1'',
                     ''=========================='', ''(no resources found)''],
          stderr = [], ending = Exit 0, session_calls = [(None, ''us-east-1'')]\<rparr>"
proof -
  have r: "py_strip '' us-east-1 '' = ''us-east-1''" by code_simp
  have m: "main ex_env ''ec2'' ''us-east-1'' None
       = \<lparr>stdout = [''=========================='', ''EC2 Instances in us-east-1'',
                     ''=========================='', ''(no resources found)''],
          stderr = [], ending = Exit 0, session_calls = [(None, ''us-east-1'')]\<rparr>"
    by code_simp
  from main_normalises_arguments [of ex_env "'' us-east-1 ''" None] r m
  show ?thesis by simp
qed

theorem main_region_passed_through_witness:
  "map_of SUPPORTED (py_strip (py_lower ''ec2'')) = Some List_ec2
   \<and> list_all py_isspace ''   ''
   \<and> session_calls (main ex_env ''ec2'' ''   '' (Some ''dev'')) = [(Some ''dev'', [])]
   \<and> Session ex_env (Some ''dev'') (py_strip ''   '') = Inr ()
   \<and> stdout (main ex_env ''ec2'' ''   '' (Some ''dev'')) = fst (list_ec2 ex_env () [])
   \<and> Session ex_no_region (Some ''dev'') (py_strip ''   '')
       = Inl (NoRegionError ''You must specify a region.'')
   \<and> main ex_no_region ''ec2'' ''   '' (Some ''dev'')
       = \<lparr>stdout = [], stderr = [''Error: You must specify a region.''], ending = Exit 1,
          session_calls = [(Some ''dev'', [])]\<rparr>
   \<and> Session ex_no_profile (Some ''dev'') (py_strip ''   '')
       = Inl (OtherException ''The config profile (dev) could not be found'')
   \<and> main ex_no_profile ''ec2'' ''   '' (Some ''dev'')
       = \<lparr>stdout = [],
          stderr = [''Error: Failed to initialize AWS session: The config profile (dev) could not be found''],
          ending = Exit 1, session_calls = [(Some ''dev'', [])]\<rparr>"
proof -
  have s: "py_strip (py_lower ''ec2'') = ''ec2''" by code_simp
  have r: "py_strip ''   '' = []" by code_simp
  have h: "map_of SUPPORTED ''ec2'' = Some List_ec2" by (simp add: SUPPORTED_def)
  have sp: "\<forall>c\<in>set ''   ''. py_isspace c" by (simp add: py_isspace_def)
  have a: "fst (session_args (Some ''dev'') []) = Some ''dev''" by (simp add: session_args_def)
  have k1: "Session ex_env (Some ''dev'') [] = Inr ()" by (simp add: ex_env_def)
  have k2: "Session ex_no_region (Some ''dev'') [] = Inl (NoRegionError ''You must specify a region.'')"
    by (simp add: ex_no_region_def)
  have k3: "Session ex_no_profile (Some ''dev'') []
      = Inl (OtherException ''The config profile (dev) could not be found'')"
    by (simp add: ex_no_profile_def)
  from main_region_passed_through [of "''ec2''" List_ec2 ex_env "''   ''" "Some ''dev''"]
    main_region_passed_through [of "''ec2''" List_ec2 ex_no_region "''   ''" "Some ''dev''"]
    main_region_passed_through [of "''ec2''" List_ec2 ex_no_profile "''   ''" "Some ''dev''"]
    s r h sp a k1 k2 k3
  show ?thesis by simp
qed

end
